theory Spec2Isabelle
  imports
    Complex_Main
    "HOL-Library.Word"
    "HOL-Library.Char_ord"
    "HOL-Library.List_Lexorder"
    "HOL-Library.Product_Lexorder"
begin

section \<open>Data model\<close>

text \<open>
  The program (\<^verbatim>\<open>tripy.py\<close>) loads advertising reports into pandas data frames, renames
  columns, concatenates, stamps a date, left-joins against a mapping and sums by group.

  A data frame is a list of column labels and a list of rows; a row holds one cell per
  column, by position. A cell is
  \<^item> missing (\<open>Null\<close>, pandas' NaN);
  \<^item> a 64-bit integer (\<open>I64\<close>, a cell of an int64 column): arithmetic on it wraps around;
  \<^item> a float (\<open>F64\<close>, a cell of a float64 column), given by its exact value, a rational;
  \<^item> \<open>Sum_of cs\<close>, the number that pandas' sum of the cells \<open>cs\<close>, in this order, is when
    it is not a sum of 64-bit integers; floating-point arithmetic is not modelled, so the
    sum of floats is named by its summands and not computed;
  \<^item> a string (\<open>Str\<close>): the list of the bytes of its UTF-8 encoding, which keeps equality
    and the order by code point.
\<close>

datatype cell = Null | I64 "64 word" | F64 rat | Sum_of "cell list" | Str string

record table =
  columns :: "string list"
  rows :: "cell list list"

text \<open>\<^verbatim>\<open>pd.DataFrame()\<close>: no columns and no rows.\<close>

definition DataFrame :: table where
  "DataFrame = \<lparr>columns = [], rows = []\<rparr>"


text \<open>The exceptions the pandas calls of the program raise.\<close>

datatype error =
    ValueError string
  | KeyError string
  | TypeError
  | InvalidIndexError
  | MergeError
  | ParserError

text \<open>What the Streamlit calls show to the user, in the order of the calls.\<close>

datatype message =
    St_error string
  | St_warning string
  | St_success string
  | St_write string
  | St_download_button string table string string

text \<open>
  An uploaded file has a name; \<open>as_excel\<close> and \<open>as_csv\<close> are what
  \<^verbatim>\<open>pd.read_excel\<close> and \<^verbatim>\<open>pd.read_csv\<close> do on its content (a frame, or an exception).
\<close>

record uploaded_file =
  name :: string
  as_excel :: "error + table"
  as_csv :: "error + table"

definition endswith :: "string \<Rightarrow> string \<Rightarrow> bool" where
  "endswith s suf = (length suf \<le> length s \<and> drop (length s - length suf) s = suf)"

section \<open>Loading\<close>

text \<open>\<^verbatim>\<open>read_file\<close> (lines 7-15): the frame or the exception, and the messages shown.\<close>

definition read_file :: "uploaded_file \<Rightarrow> (error + table) \<times> message list" where
  "read_file uploaded_file =
     (if endswith (name uploaded_file) ''.xlsx'' then (as_excel uploaded_file, [])
      else if endswith (name uploaded_file) ''.csv'' then (as_csv uploaded_file, [])
      else (Inr DataFrame, [St_error ''Unsupported file format'']))"

text \<open>The rupee sign U+20B9 of the report's column labels, as its three UTF-8 bytes.\<close>

definition rupee :: string where
  "rupee = [CHR 0xE2, CHR 0x82, CHR 0xB9]"

definition rename_dict_14_day :: "(string \<times> string) list" where
  "rename_dict_14_day =
     [(''14 Day Total Sales ('' @ rupee @ '')'', ''Total Sales''),
      (''14 Day Total Orders (#)'', ''Total Orders''),
      (''14 Day Total Units (#)'', ''Total Units'')]"

definition rename_dict_7_day :: "(string \<times> string) list" where
  "rename_dict_7_day =
     [(''7 Day Total Sales ('' @ rupee @ '')'', ''Total Sales''),
      (''7 Day Total Units (#)'', ''Total Units''),
      (''7 Day Total Orders (#)'', ''Total Orders'')]"

text \<open>
  \<^verbatim>\<open>df.rename(columns=d)\<close>: a label that is a key of \<open>d\<close> is replaced, every other label
  and every cell stays.
\<close>

definition rename_label :: "(string \<times> string) list \<Rightarrow> string \<Rightarrow> string" where
  "rename_label d c = (case map_of d c of Some c' \<Rightarrow> c' | None \<Rightarrow> c)"

definition rename_columns :: "(string \<times> string) list \<Rightarrow> table \<Rightarrow> table" where
  "rename_columns d df = df\<lparr>columns := map (rename_label d) (columns df)\<rparr>"

text \<open>\<^verbatim>\<open>all(col in df.columns for col in d.keys())\<close>\<close>

definition all_keys_in :: "(string \<times> string) list \<Rightarrow> table \<Rightarrow> bool" where
  "all_keys_in d df = list_all (\<lambda>col. col \<in> set (columns df)) (map fst d)"

text \<open>Lines 28-49 of \<^verbatim>\<open>read_file_asin\<close>: the renaming of a frame that was read.\<close>

definition rename_asin_columns :: "table \<Rightarrow> table \<times> message list" where
  "rename_asin_columns df =
     (if all_keys_in rename_dict_14_day df then (rename_columns rename_dict_14_day df, [])
      else if all_keys_in rename_dict_7_day df then (rename_columns rename_dict_7_day df, [])
      else (df, [St_warning ''Expected columns not found. Returning the original DataFrame.'']))"

definition renamed :: "error + table \<Rightarrow> (error + table) \<times> message list" where
  "renamed r =
     (case r of
        Inl e \<Rightarrow> (Inl e, [])
      | Inr df \<Rightarrow> (Inr (fst (rename_asin_columns df)), snd (rename_asin_columns df)))"

text \<open>\<^verbatim>\<open>read_file_asin\<close> (lines 17-49).\<close>

definition read_file_asin :: "uploaded_file \<Rightarrow> (error + table) \<times> message list" where
  "read_file_asin uploaded_file =
     (if endswith (name uploaded_file) ''.xlsx'' then renamed (as_excel uploaded_file)
      else if endswith (name uploaded_file) ''.csv'' then renamed (as_csv uploaded_file)
      else (Inr DataFrame, [St_error ''Unsupported file format'']))"

section \<open>Frame operations of pandas\<close>

text \<open>
  The pandas calls of the program, with the defaults the program leaves in place. Every
  cell carries its own tag; the type of a column (its dtype) is read off the cells of the
  column where a result depends on it, which is in the sums.
\<close>

fun index_of :: "'a \<Rightarrow> 'a list \<Rightarrow> nat" where
  "index_of x [] = 0"
| "index_of x (y # ys) = (if x = y then 0 else Suc (index_of x ys))"

definition cell_at :: "cell list \<Rightarrow> nat \<Rightarrow> cell" where
  "cell_at r i = (if i < length r then r ! i else Null)"

text \<open>The cell of row \<open>r\<close> under label \<open>c\<close>; missing when the frame has no such column.\<close>

definition get_cell :: "string list \<Rightarrow> string \<Rightarrow> cell list \<Rightarrow> cell" where
  "get_cell cols c r = (if c \<in> set cols then cell_at r (index_of c cols) else Null)"

subsection \<open>\<^verbatim>\<open>pd.concat(dfs, ignore_index=True)\<close>\<close>

text \<open>The union of the labels, each at its first appearance.\<close>

fun union_columns :: "string list list \<Rightarrow> string list" where
  "union_columns [] = []"
| "union_columns (cs # css) = cs @ filter (\<lambda>c. c \<notin> set cs) (union_columns css)"

definition reindex :: "string list \<Rightarrow> table \<Rightarrow> cell list list" where
  "reindex cols df = map (\<lambda>r. map (\<lambda>c. get_cell (columns df) c r) cols) (rows df)"

text \<open>
  An empty list raises. Frames with unique labels are stacked under the union of their
  labels, a cell of a column the frame lacks being missing. Frames with a repeated label
  are stacked only when all frames have the same labels.
\<close>

definition pd_concat :: "table list \<Rightarrow> error + table" where
  "pd_concat dfs =
     (if dfs = [] then Inl (ValueError ''No objects to concatenate'')
      else if list_all (\<lambda>df. distinct (columns df)) dfs then
        Inr \<lparr>columns = union_columns (map columns dfs),
             rows = concat (map (reindex (union_columns (map columns dfs))) dfs)\<rparr>
      else if list_all (\<lambda>df. columns df = columns (hd dfs)) dfs then
        Inr \<lparr>columns = columns (hd dfs), rows = concat (map rows dfs)\<rparr>
      else Inl InvalidIndexError)"

subsection \<open>\<^verbatim>\<open>df[c] = v\<close> for a scalar \<open>v\<close>\<close>

definition assign_column :: "string \<Rightarrow> cell \<Rightarrow> table \<Rightarrow> table" where
  "assign_column c v df =
     (if c \<in> set (columns df) then
        df\<lparr>rows := map (\<lambda>r. map (\<lambda>(c', x). if c' = c then v else x) (zip (columns df) r))
                      (rows df)\<rparr>
      else df\<lparr>columns := columns df @ [c], rows := map (\<lambda>r. r @ [v]) (rows df)\<rparr>)"

subsection \<open>\<^verbatim>\<open>pd.merge(left, right, left_on=a, right_on=b, how='left')\<close>\<close>

text \<open>
  For two different key labels, as at the three calls of the program. Both key columns
  are kept. A label of both frames gets the suffix \<open>_x\<close> on the left and \<open>_y\<close> on the
  right; a suffix that makes a label collide inside one frame raises. Every left row is
  kept, in order: once per right row with an equal key (missing keys are equal to each
  other), or once with missing cells for the right columns when no key is equal.
\<close>

definition dup_flags :: "string list \<Rightarrow> bool list" where
  "dup_flags xs = map (\<lambda>i. xs ! i \<in> set (take i xs)) [0..<length xs]"

definition new_dups :: "string list \<Rightarrow> string list \<Rightarrow> bool" where
  "new_dups old new = list_ex (\<lambda>(was, now). now \<and> \<not> was) (zip (dup_flags old) (dup_flags new))"

definition matching :: "table \<Rightarrow> string \<Rightarrow> cell \<Rightarrow> cell list list" where
  "matching right right_on k =
     filter (\<lambda>q. get_cell (columns right) right_on q = k) (rows right)"

definition join_row :: "string list \<Rightarrow> string \<Rightarrow> table \<Rightarrow> string \<Rightarrow> cell list \<Rightarrow> cell list list" where
  "join_row lcols left_on right right_on r =
     (case matching right right_on (get_cell lcols left_on r) of
        [] \<Rightarrow> [r @ replicate (length (columns right)) Null]
      | q # qs \<Rightarrow> map (\<lambda>q'. r @ q') (q # qs))"

definition merge_left :: "table \<Rightarrow> table \<Rightarrow> string \<Rightarrow> string \<Rightarrow> error + table" where
  "merge_left left right left_on right_on =
     (let lcols = columns left;
          rcols = columns right;
          llabels = map (\<lambda>c. if c \<in> set rcols then c @ ''_x'' else c) lcols;
          rlabels = map (\<lambda>c. if c \<in> set lcols then c @ ''_y'' else c) rcols
      in if right_on \<notin> set rcols then Inl (KeyError right_on)
         else if left_on \<notin> set lcols then Inl (KeyError left_on)
         else if new_dups lcols llabels \<or> new_dups rcols rlabels then Inl MergeError
         else Inr \<lparr>columns = llabels @ rlabels,
                   rows = concat (map (join_row lcols left_on right right_on) (rows left))\<rparr>)"

subsection \<open>\<^verbatim>\<open>df.groupby([k1, k2]).agg(agg_dict).reset_index()\<close>\<close>

text \<open>
  The sum of a column over a group, from the cells of the whole column and the cells of the
  group. A column of 64-bit integers only (dtype int64) is summed in 64 bits, with
  wrap-around. Any other column is summed over its cells that are not missing: strings are
  joined, a string among numbers raises, and numbers (floats, or integers in a column that
  also has floats or missing cells, which pandas holds as floats) give the sum that
  \<open>Sum_of\<close> names; so a group with no cell left gives the sum of nothing.
\<close>

fun is_i64 :: "cell \<Rightarrow> bool" where
  "is_i64 (I64 w) = True"
| "is_i64 _ = False"

fun is_str :: "cell \<Rightarrow> bool" where
  "is_str (Str s) = True"
| "is_str _ = False"

fun i64_of :: "cell \<Rightarrow> 64 word" where
  "i64_of (I64 w) = w"
| "i64_of _ = 0"

fun str_of :: "cell \<Rightarrow> string" where
  "str_of (Str s) = s"
| "str_of _ = []"

definition present :: "cell list \<Rightarrow> cell list" where
  "present cs = filter (\<lambda>c. c \<noteq> Null) cs"

definition sum_cells :: "cell list \<Rightarrow> cell list \<Rightarrow> error + cell" where
  "sum_cells col grp =
     (if list_all is_i64 col then Inr (I64 (sum_list (map i64_of grp)))
      else if list_ex is_str (present grp) then
        (if list_all is_str (present grp) then Inr (Str (concat (map str_of (present grp))))
         else Inl TypeError)
      else Inr (Sum_of (present grp)))"

text \<open>The first exception of a list of results, or all the values.\<close>

fun collect :: "(error + 'a) list \<Rightarrow> error + 'a list" where
  "collect [] = Inr []"
| "collect (x # xs) =
     (case x of
        Inl e \<Rightarrow> Inl e
      | Inr v \<Rightarrow> (case collect xs of Inl e \<Rightarrow> Inl e | Inr vs \<Rightarrow> Inr (v # vs)))"

definition group_key :: "string list \<Rightarrow> string \<Rightarrow> string \<Rightarrow> cell list \<Rightarrow> cell \<times> cell" where
  "group_key cols k1 k2 r = (get_cell cols k1 r, get_cell cols k2 r)"

text \<open>
  The order of group keys (\<open>sort=True\<close>): numbers by value, then strings by code point.
  A named sum is a cell of a summary only, never of a key column; its rank is that of 0.
\<close>

fun sort_rank :: "cell \<Rightarrow> nat \<times> rat \<times> string" where
  "sort_rank (I64 w) = (0, of_int (sint w), [])"
| "sort_rank (F64 q) = (0, q, [])"
| "sort_rank (Sum_of cs) = (0, 0, [])"
| "sort_rank (Str s) = (1, 0, s)"
| "sort_rank Null = (2, 0, [])"

definition pair_rank :: "cell \<times> cell \<Rightarrow> (nat \<times> rat \<times> string) \<times> (nat \<times> rat \<times> string)" where
  "pair_rank k = (sort_rank (fst k), sort_rank (snd k))"

definition no_null :: "cell \<times> cell \<Rightarrow> bool" where
  "no_null k = (fst k \<noteq> Null \<and> snd k \<noteq> Null)"

text \<open>
  The groups: the key pairs of the rows, without the pairs that have a missing component
  (\<open>dropna=True\<close>), each once, sorted.
\<close>

definition group_keys :: "table \<Rightarrow> string \<Rightarrow> string \<Rightarrow> (cell \<times> cell) list" where
  "group_keys df k1 k2 =
     sort_key pair_rank (remdups (filter no_null (map (group_key (columns df) k1 k2) (rows df))))"

definition group_rows :: "table \<Rightarrow> string \<Rightarrow> string \<Rightarrow> cell \<times> cell \<Rightarrow> cell list list" where
  "group_rows df k1 k2 k = filter (\<lambda>r. group_key (columns df) k1 k2 r = k) (rows df)"

definition group_row :: "table \<Rightarrow> string \<Rightarrow> string \<Rightarrow> string list \<Rightarrow> cell \<times> cell \<Rightarrow> error + cell list" where
  "group_row df k1 k2 metrics k =
     (case collect (map (\<lambda>m. sum_cells (map (get_cell (columns df) m) (rows df))
                                         (map (get_cell (columns df) m) (group_rows df k1 k2 k)))
                        metrics) of
        Inl e \<Rightarrow> Inl e
      | Inr totals \<Rightarrow> Inr ([fst k, snd k] @ totals))"

text \<open>
  A missing grouping column raises; so does a grouping label among the summed columns
  (\<^verbatim>\<open>reset_index\<close> cannot insert it a second time).
\<close>

definition groupby_sum :: "table \<Rightarrow> string \<Rightarrow> string \<Rightarrow> string list \<Rightarrow> error + table" where
  "groupby_sum df k1 k2 metrics =
     (if k1 \<notin> set (columns df) then Inl (KeyError k1)
      else if k2 \<notin> set (columns df) then Inl (KeyError k2)
      else case collect (map (group_row df k1 k2 metrics) (group_keys df k1 k2)) of
             Inl e \<Rightarrow> Inl e
           | Inr rs \<Rightarrow>
               if k1 \<in> set metrics \<or> k2 \<in> set metrics then Inl (ValueError ''cannot insert'')
               else Inr \<lparr>columns = [k1, k2] @ metrics, rows = rs\<rparr>)"

section \<open>Aggregation\<close>

datatype aggfun = Sum

text \<open>
  \<^verbatim>\<open>aggregate_data\<close> (lines 99-105). \<open>agg_dict\<close> is the dictionary in the order it is
  written; the program only ever asks for \<^verbatim>\<open>'sum'\<close>.
\<close>

definition aggregate_data :: "table \<Rightarrow> (string \<times> aggfun) list \<Rightarrow> (error + table) \<times> message list" where
  "aggregate_data df agg_dict =
     (if list_all (\<lambda>col. col \<in> set (columns df)) (map fst agg_dict) then
        (groupby_sum df ''Selected Date'' ''Sub-Category'' (map fst agg_dict), [])
      else (Inr DataFrame, [St_error ''One or more columns are missing for aggregation'']))"

section \<open>The pipeline\<close>

text \<open>
  Data frames are Python objects: a variable holds a reference, and
  \<^verbatim>\<open>df['Selected Date'] = ...\<close> changes the object behind it. The frames that exist before
  \<^verbatim>\<open>process_files\<close> runs (the two mappings) and the frames it changes in place (the three
  concatenated reports) live in a heap, addressed by position. A frame that is only read
  after it is made (a frame read from a file, a joined frame, a summary) is a value.
  The world is the heap and the messages shown so far.
\<close>

record world =
  heap :: "table list"
  shown :: "message list"

type_synonym 'a action = "world \<Rightarrow> (error + 'a) \<times> world"

definition return :: "'a \<Rightarrow> 'a action" where
  "return x w = (Inr x, w)"

text \<open>Sequencing: an exception ends the run, the world staying as it was when raised.\<close>

definition and_then :: "'a action \<Rightarrow> ('a \<Rightarrow> 'b action) \<Rightarrow> 'b action" where
  "and_then m f w = (case m w of (Inl e, w') \<Rightarrow> (Inl e, w') | (Inr x, w') \<Rightarrow> f x w')"

text \<open>A call that returns or raises and shows messages.\<close>

definition say :: "(error + 'a) \<times> message list \<Rightarrow> 'a action" where
  "say r w = (fst r, w\<lparr>shown := shown w @ snd r\<rparr>)"

text \<open>The frame behind a reference. Every reference the program holds is allocated.\<close>

definition frame_at :: "world \<Rightarrow> nat \<Rightarrow> table" where
  "frame_at w a = (if a < length (heap w) then heap w ! a else DataFrame)"

text \<open>A new frame object: the result of a pandas call, at a fresh address.\<close>

definition new_frame :: "error + table \<Rightarrow> nat action" where
  "new_frame r w =
     (case r of
        Inl e \<Rightarrow> (Inl e, w)
      | Inr df \<Rightarrow> (Inr (length (heap w)), w\<lparr>heap := heap w @ [df]\<rparr>))"

text \<open>\<^verbatim>\<open>df[c] = v\<close> on the object behind \<open>a\<close>.\<close>

definition setitem :: "nat \<Rightarrow> string \<Rightarrow> cell \<Rightarrow> unit action" where
  "setitem a c v w = (Inr (), w\<lparr>heap := (heap w)[a := assign_column c v (frame_at w a)]\<rparr>)"

text \<open>\<^verbatim>\<open>pd.merge\<close> reads both objects and makes a new frame.\<close>

definition pd_merge :: "nat \<Rightarrow> nat \<Rightarrow> string \<Rightarrow> string \<Rightarrow> table action" where
  "pd_merge left right left_on right_on w =
     (merge_left (frame_at w left) (frame_at w right) left_on right_on, w)"

text \<open>
  \<^verbatim>\<open>[read(file) for file in files]\<close>: the frames in order, or the first exception, with
  the messages shown up to there. The frames are new objects that nothing else refers to.
\<close>

fun read_all :: "(uploaded_file \<Rightarrow> (error + table) \<times> message list) \<Rightarrow> uploaded_file list \<Rightarrow> (error + table list) \<times> message list" where
  "read_all rd [] = (Inr [], [])"
| "read_all rd (f # fs) =
     (case fst (rd f) of
        Inl e \<Rightarrow> (Inl e, snd (rd f))
      | Inr df \<Rightarrow>
          (case fst (read_all rd fs) of
             Inl e \<Rightarrow> (Inl e, snd (rd f) @ snd (read_all rd fs))
           | Inr dfs \<Rightarrow> (Inr (df # dfs), snd (rd f) @ snd (read_all rd fs))))"

text \<open>
  The date of the date picker (2000-01-01 to 2100-12-31) and
  \<^verbatim>\<open>strftime('%Y-%m-%d')\<close>: four, two and two decimal digits.
\<close>

record date =
  year :: nat
  month :: nat
  day :: nat

definition digit :: "nat \<Rightarrow> char" where
  "digit n = ''0123456789'' ! (n mod 10)"

definition strftime :: "date \<Rightarrow> string" where
  "strftime d =
     [digit (year d div 1000), digit (year d div 100), digit (year d div 10), digit (year d)]
     @ ''-'' @ [digit (month d div 10), digit (month d)]
     @ ''-'' @ [digit (day d div 10), digit (day d)]"

definition sp_metrics :: "(string \<times> aggfun) list" where
  "sp_metrics =
     [(''Total Orders'', Sum), (''Total Units'', Sum), (''Total Sales'', Sum), (''Spend'', Sum)]"

definition sb_metrics :: "(string \<times> aggfun) list" where
  "sb_metrics =
     [(''Orders'', Sum), (''Clicks'', Sum), (''Sales(INR)'', Sum), (''Spend(INR)'', Sum)]"

text \<open>
  \<^verbatim>\<open>process_files\<close> (lines 51-97). \<open>asin_mapping\<close> and \<open>campaign_mapping\<close> are references
  to the mapping frames. The result is the triple \<^verbatim>\<open>SP_summary, SD_summary, SB_summary\<close>.
\<close>

definition process_files ::
  "uploaded_file list \<Rightarrow> uploaded_file list \<Rightarrow> uploaded_file list \<Rightarrow> nat \<Rightarrow> nat \<Rightarrow> date
     \<Rightarrow> (table \<times> table \<times> table) action" where
  "process_files sp_file sd_file sb_file asin_mapping campaign_mapping selected_date =
     and_then (say (read_all read_file_asin sp_file)) (\<lambda>sp_dfs.
     and_then (new_frame (pd_concat sp_dfs)) (\<lambda>sp_file_df.
     and_then (say (read_all read_file_asin sd_file)) (\<lambda>sd_dfs.
     and_then (say (read_all read_file sb_file)) (\<lambda>sb_dfs.
     and_then (new_frame (pd_concat sd_dfs)) (\<lambda>sd_file_df.
     and_then (new_frame (pd_concat sb_dfs)) (\<lambda>sb_file_df.
     and_then (setitem sp_file_df ''Selected Date'' (Str (strftime selected_date))) (\<lambda>_.
     and_then (setitem sd_file_df ''Selected Date'' (Str (strftime selected_date))) (\<lambda>_.
     and_then (setitem sb_file_df ''Selected Date'' (Str (strftime selected_date))) (\<lambda>_.
     and_then (pd_merge sp_file_df asin_mapping ''Advertised ASIN'' ''ASIN'') (\<lambda>merged_data_SP.
     and_then (pd_merge sb_file_df campaign_mapping ''Campaigns'' ''SB Campaign Name'')
       (\<lambda>merged_data_SB.
     and_then (pd_merge sd_file_df asin_mapping ''Advertised ASIN'' ''ASIN'') (\<lambda>merged_data_SD.
     and_then (say (aggregate_data merged_data_SP sp_metrics)) (\<lambda>SP_summary.
     and_then (say (aggregate_data merged_data_SB sb_metrics)) (\<lambda>SB_summary.
     and_then (say (aggregate_data merged_data_SD sp_metrics)) (\<lambda>SD_summary.
     return (SP_summary, SD_summary, SB_summary))))))))))))))))"

section \<open>The page\<close>

text \<open>
  The module level (lines 114-172), run once per interaction. Its inputs are the widgets'
  values: whether the Process button was pressed, the three lists of uploaded files (empty
  when nothing was uploaded) and the date; and the two mappings read at the start.
  \<^verbatim>\<open>save_df_to_csv\<close> writes a frame as CSV text; a download button is shown here with the
  frame its text is written from.
\<close>

definition show_all :: "message list \<Rightarrow> unit action" where
  "show_all ms w = (Inr (), w\<lparr>shown := shown w @ ms\<rparr>)"

definition page ::
  "bool \<Rightarrow> uploaded_file list \<Rightarrow> uploaded_file list \<Rightarrow> uploaded_file list \<Rightarrow> nat \<Rightarrow> nat \<Rightarrow> date
     \<Rightarrow> unit action" where
  "page process_pressed SP_file SD_file SB_file ASIN_Mapping Campaign_Mapping selected_date =
     (if process_pressed then
        and_then
          (process_files SP_file SD_file SB_file ASIN_Mapping Campaign_Mapping selected_date)
          (\<lambda>(SP_summary, SD_summary, SB_summary).
             show_all
               [St_success ''Processing completed and files have been merged.'',
                St_write ''SP files have been updated and merged.'',
                St_write ''SD files have been updated and merged.'',
                St_write ''SB files have been updated and merged.'',
                St_download_button ''Download Updated SP Summary'' SP_summary
                  ''SP_Summary.csv'' ''text/csv'',
                St_download_button ''Download Updated SD Summary'' SD_summary
                  ''SD_Summary.csv'' ''text/csv'',
                St_download_button ''Download Updated SB Summary'' SB_summary
                  ''SB_Summary.csv'' ''text/csv''])
      else show_all [St_warning ''Please upload all required files (SP, SD, SB).''])"

section \<open>Example frames\<close>

text \<open>A report that has the three 14-day labels and the three 7-day labels at once.\<close>

definition both_sets_frame :: table where
  "both_sets_frame =
     \<lparr>columns =
        [''14 Day Total Sales ('' @ rupee @ '')'', ''14 Day Total Orders (#)'',
         ''14 Day Total Units (#)'', ''7 Day Total Sales ('' @ rupee @ '')'',
         ''7 Day Total Units (#)'', ''7 Day Total Orders (#)''],
      rows = [[I64 6, I64 5, I64 4, I64 3, I64 2, I64 1]]\<rparr>"

definition both_sets_file :: uploaded_file where
  "both_sets_file =
     \<lparr>name = ''sp.csv'', as_excel = Inl ParserError, as_csv = Inr both_sets_frame\<rparr>"

text \<open>A report that already has the canonical labels.\<close>

definition canonical_frame :: table where
  "canonical_frame =
     \<lparr>columns = [''Advertised ASIN'', ''Total Sales'', ''Total Orders'', ''Total Units'', ''Spend''],
      rows = [[Str ''B01'', I64 10, I64 1, I64 2, I64 3], [Str ''B02'', I64 20, I64 2, I64 4, I64 5]]\<rparr>"

definition canonical_file :: uploaded_file where
  "canonical_file =
     \<lparr>name = ''sd.xlsx'', as_excel = Inr canonical_frame, as_csv = Inl ParserError\<rparr>"

text \<open>A file of another format.\<close>

definition text_file :: uploaded_file where
  "text_file = \<lparr>name = ''report.txt'', as_excel = Inl ParserError, as_csv = Inr canonical_frame\<rparr>"

text \<open>The two mappings, already read, and the world at the start of a run.\<close>

definition asin_map_frame :: table where
  "asin_map_frame = \<lparr>columns = [''ASIN'', ''Sub-Category''], rows = [[Str ''B01'', Str ''Soap'']]\<rparr>"

definition campaign_map_frame :: table where
  "campaign_map_frame =
     \<lparr>columns = [''SB Campaign Name'', ''Sub-Category''], rows = [[Str ''c1'', Str ''Soap'']]\<rparr>"

definition start_world :: world where
  "start_world = \<lparr>heap = [asin_map_frame, campaign_map_frame], shown = []\<rparr>"

text \<open>An SB report and a date.\<close>

definition sb_report_frame :: table where
  "sb_report_frame =
     \<lparr>columns = [''Campaigns'', ''Orders'', ''Clicks'', ''Sales(INR)'', ''Spend(INR)''],
      rows = [[Str ''c1'', I64 10, I64 2, I64 1, I64 3]]\<rparr>"

definition sb_report_file :: uploaded_file where
  "sb_report_file = \<lparr>name = ''sb.csv'', as_excel = Inl ParserError, as_csv = Inr sb_report_frame\<rparr>"

definition jan_1 :: date where
  "jan_1 = \<lparr>year = 2024, month = 1, day = 1\<rparr>"

















section \<open>Loading and renaming\<close>

lemma read_file_asin_of_read_file:
  assumes "read_file f = (Inr df, [])"
  shows "read_file_asin f = (Inr (fst (rename_asin_columns df)), snd (rename_asin_columns df))"
  using assms by (auto simp: read_file_def read_file_asin_def renamed_def split: if_splits)

lemma rename_label_14_on_7:
  "c \<in> set (map fst rename_dict_7_day) \<Longrightarrow> rename_label rename_dict_14_day c = c"
  by (auto simp: rename_label_def rename_dict_14_day_def rename_dict_7_day_def)

text \<open>
  C5. When \<^verbatim>\<open>read_file_asin\<close> reads a frame that has all three 14-day labels and all
  three 7-day labels, it renames by the 14-day dictionary only: the result has the labels
  mapped by that dictionary and the same rows, nothing is shown, and each 7-day label is
  left as it is and is still a column of the result.
\<close>

theorem tie_break_14_day_first:
  assumes "read_file f = (Inr df, [])"
    and "all_keys_in rename_dict_14_day df"
    and "all_keys_in rename_dict_7_day df"
  shows "read_file_asin f =
           (Inr \<lparr>columns = map (rename_label rename_dict_14_day) (columns df), rows = rows df\<rparr>, [])
         \<and> (\<forall>c \<in> set (map fst rename_dict_7_day).
               rename_label rename_dict_14_day c = c
               \<and> c \<in> set (map (rename_label rename_dict_14_day) (columns df)))"
proof -
  have "rename_asin_columns df = (rename_columns rename_dict_14_day df, [])"
    using assms(2) by (simp add: rename_asin_columns_def)
  then have "read_file_asin f = (Inr (rename_columns rename_dict_14_day df), [])"
    using read_file_asin_of_read_file [OF assms(1)] by simp
  moreover have "rename_columns rename_dict_14_day df =
      \<lparr>columns = map (rename_label rename_dict_14_day) (columns df), rows = rows df\<rparr>"
    by (simp add: rename_columns_def)
  moreover have "\<forall>c \<in> set (map fst rename_dict_7_day).
      rename_label rename_dict_14_day c = c
      \<and> c \<in> set (map (rename_label rename_dict_14_day) (columns df))"
  proof
    fix c assume c: "c \<in> set (map fst rename_dict_7_day)"
    then have fixed: "rename_label rename_dict_14_day c = c" by (rule rename_label_14_on_7)
    from c assms(3) have "c \<in> set (columns df)"
      by (auto simp: all_keys_in_def list_all_iff)
    then have "rename_label rename_dict_14_day c
        \<in> set (map (rename_label rename_dict_14_day) (columns df))"
      by simp
    with fixed show "rename_label rename_dict_14_day c = c
      \<and> c \<in> set (map (rename_label rename_dict_14_day) (columns df))" by simp
  qed
  ultimately show ?thesis by simp
qed

theorem tie_break_14_day_first_witness:
  "read_file_asin both_sets_file =
     (Inr \<lparr>columns =
          [''Total Sales'', ''Total Orders'', ''Total Units'',
           ''7 Day Total Sales ('' @ rupee @ '')'', ''7 Day Total Units (#)'',
           ''7 Day Total Orders (#)''],
        rows = [[I64 6, I64 5, I64 4, I64 3, I64 2, I64 1]]\<rparr>, [])"
proof -
  have a: "read_file both_sets_file = (Inr both_sets_frame, [])"
    by (simp add: read_file_def both_sets_file_def endswith_def)
  have b: "all_keys_in rename_dict_14_day both_sets_frame"
    by (simp add: all_keys_in_def rename_dict_14_day_def both_sets_frame_def)
  have c: "all_keys_in rename_dict_7_day both_sets_frame"
    by (simp add: all_keys_in_def rename_dict_7_day_def both_sets_frame_def)
  show ?thesis
    using tie_break_14_day_first [OF a b c]
    by (simp add: rename_label_def rename_dict_14_day_def rupee_def both_sets_frame_def)
qed

text \<open>
  C6. When \<^verbatim>\<open>read_file_asin\<close> reads a frame that has neither all three 14-day labels
  nor all three 7-day labels (a frame with the canonical labels, for one), it returns the
  frame as it is, labels and cells, and shows the warning that the expected columns were
  not found; it does not raise.
\<close>

theorem no_source_set_unchanged:
  assumes "read_file f = (Inr df, [])"
    and "\<not> all_keys_in rename_dict_14_day df"
    and "\<not> all_keys_in rename_dict_7_day df"
  shows "read_file_asin f =
           (Inr df, [St_warning ''Expected columns not found. Returning the original DataFrame.''])"
  using read_file_asin_of_read_file [OF assms(1)] assms(2,3)
  by (simp add: rename_asin_columns_def)

theorem no_source_set_unchanged_witness:
  "read_file_asin canonical_file =
     (Inr canonical_frame,
      [St_warning ''Expected columns not found. Returning the original DataFrame.''])"
proof -
  have a: "read_file canonical_file = (Inr canonical_frame, [])"
    by (simp add: read_file_def canonical_file_def endswith_def)
  have b: "\<not> all_keys_in rename_dict_14_day canonical_frame"
    by (simp add: all_keys_in_def rename_dict_14_day_def canonical_frame_def)
  have c: "\<not> all_keys_in rename_dict_7_day canonical_frame"
    by (simp add: all_keys_in_def rename_dict_7_day_def canonical_frame_def)
  show ?thesis
    by (rule no_source_set_unchanged [OF a b c])
qed

text \<open>
  C7. For a file whose name ends in neither \<open>.xlsx\<close> nor \<open>.csv\<close>, \<^verbatim>\<open>read_file\<close> and
  \<^verbatim>\<open>read_file_asin\<close> both return (they do not raise) the frame with no column and no row,
  and show the error that the format is unsupported.
\<close>

theorem unsupported_format_empty:
  assumes "\<not> endswith (name f) ''.xlsx''" and "\<not> endswith (name f) ''.csv''"
  shows "read_file f = (Inr \<lparr>columns = [], rows = []\<rparr>, [St_error ''Unsupported file format''])
       \<and> read_file_asin f =
           (Inr \<lparr>columns = [], rows = []\<rparr>, [St_error ''Unsupported file format''])"
  using assms by (simp add: read_file_def read_file_asin_def DataFrame_def)

theorem unsupported_format_empty_witness:
  "read_file text_file = (Inr \<lparr>columns = [], rows = []\<rparr>, [St_error ''Unsupported file format''])
   \<and> read_file_asin text_file =
       (Inr \<lparr>columns = [], rows = []\<rparr>, [St_error ''Unsupported file format''])"
proof -
  have a: "\<not> endswith (name text_file) ''.xlsx''"
    by (simp add: text_file_def endswith_def)
  have b: "\<not> endswith (name text_file) ''.csv''"
    by (simp add: text_file_def endswith_def)
  show ?thesis
    by (rule unsupported_format_empty [OF a b])
qed

section \<open>Running the pipeline\<close>

text \<open>One step of a run, for each kind of call \<^verbatim>\<open>process_files\<close> makes.\<close>

lemma and_then_say:
  "and_then (say r) f w =
     (case fst r of
        Inl e \<Rightarrow> (Inl e, w\<lparr>shown := shown w @ snd r\<rparr>)
      | Inr x \<Rightarrow> f x (w\<lparr>shown := shown w @ snd r\<rparr>))"
  by (simp add: and_then_def say_def split: sum.splits)

lemma and_then_new_frame:
  "and_then (new_frame r) f w =
     (case r of
        Inl e \<Rightarrow> (Inl e, w)
      | Inr df \<Rightarrow> f (length (heap w)) (w\<lparr>heap := heap w @ [df]\<rparr>))"
  by (simp add: and_then_def new_frame_def split: sum.splits)

lemma and_then_setitem:
  "and_then (setitem a c v) f w =
     f () (w\<lparr>heap := (heap w)[a := assign_column c v (frame_at w a)]\<rparr>)"
  by (simp add: and_then_def setitem_def)

lemma and_then_pd_merge:
  "and_then (pd_merge l r lo ro) f w =
     (case merge_left (frame_at w l) (frame_at w r) lo ro of
        Inl e \<Rightarrow> (Inl e, w)
      | Inr j \<Rightarrow> f j w)"
  by (simp add: and_then_def pd_merge_def split: sum.splits)

lemmas steps = and_then_say and_then_new_frame and_then_setitem and_then_pd_merge

lemma read_all_Nil: "fst (read_all rd []) = Inr []" "snd (read_all rd []) = []"
  by simp_all

lemma pd_concat_Nil: "pd_concat [] = Inl (ValueError ''No objects to concatenate'')"
  by (simp add: pd_concat_def)

text \<open>The example inputs, step by step.\<close>

lemmas load_defs = read_file_def read_file_asin_def renamed_def rename_asin_columns_def
  all_keys_in_def rename_dict_14_day_def rename_dict_7_day_def rename_columns_def rename_label_def
  rupee_def endswith_def DataFrame_def

lemmas frame_defs = pd_concat_def reindex_def get_cell_def cell_at_def assign_column_def
  merge_left_def new_dups_def dup_flags_def join_row_def matching_def

lemmas agg_defs = aggregate_data_def groupby_sum_def group_keys_def group_key_def group_rows_def
  group_row_def sum_cells_def present_def pair_rank_def no_null_def get_cell_def cell_at_def

lemma strftime_jan_1: "strftime jan_1 = ''2024-01-01''"
  by (simp add: strftime_def jan_1_def digit_def)

lemma read_canonical:
  "read_all read_file_asin [canonical_file] =
     (Inr [canonical_frame],
      [St_warning ''Expected columns not found. Returning the original DataFrame.''])"
  by (simp add: load_defs canonical_file_def canonical_frame_def)

lemma read_text:
  "read_all read_file_asin [text_file] = (Inr [DataFrame], [St_error ''Unsupported file format''])"
  by (simp add: load_defs text_file_def)

lemma read_sb_report: "read_all read_file [sb_report_file] = (Inr [sb_report_frame], [])"
  by (simp add: load_defs sb_report_file_def)

lemma concat_canonical: "pd_concat [canonical_frame] = Inr canonical_frame"
  by (simp add: frame_defs canonical_frame_def)

lemma concat_empty_frame: "pd_concat [DataFrame] = Inr DataFrame"
  by (simp add: frame_defs DataFrame_def)

lemma concat_sb_report: "pd_concat [sb_report_frame] = Inr sb_report_frame"
  by (simp add: frame_defs sb_report_frame_def)

lemma merge_empty_frame:
  "merge_left (assign_column ''Selected Date'' (Str ''2024-01-01'') DataFrame) asin_map_frame
     ''Advertised ASIN'' ''ASIN'' = Inl (KeyError ''Advertised ASIN'')"
  by (simp add: frame_defs DataFrame_def asin_map_frame_def)

section \<open>The mappings are only read\<close>

text \<open>
  C10. Whatever \<^verbatim>\<open>process_files\<close> does (return or raise), every frame that existed before
  the call is the same after it: the heap of before is a prefix of the heap of after. So the
  frames behind the two mapping references have the rows, columns and values they had.
\<close>

theorem mappings_unchanged:
  assumes "process_files sp_file sd_file sb_file asin_mapping campaign_mapping selected_date w
             = (r, w')"
    and "asin_mapping < length (heap w)"
    and "campaign_mapping < length (heap w)"
  shows "frame_at w' asin_mapping = frame_at w asin_mapping
       \<and> frame_at w' campaign_mapping = frame_at w campaign_mapping
       \<and> take (length (heap w)) (heap w') = heap w"
proof -
  have pre: "take (length (heap w)) (heap w') = heap w"
    using assms(1)
    by (auto simp: process_files_def and_then_def say_def new_frame_def setitem_def pd_merge_def
        return_def split: sum.splits prod.splits)
  have "length (take (length (heap w)) (heap w')) = length (heap w)"
    using pre by simp
  then have len: "length (heap w) \<le> length (heap w')"
    by simp
  have "\<And>a. a < length (heap w) \<Longrightarrow> frame_at w' a = frame_at w a"
  proof -
    fix a assume a: "a < length (heap w)"
    then have "heap w' ! a = take (length (heap w)) (heap w') ! a" by simp
    with pre a len show "frame_at w' a = frame_at w a" by (simp add: frame_at_def)
  qed
  with assms(2,3) pre show ?thesis by simp
qed

theorem mappings_unchanged_witness:
  "frame_at (snd (process_files [canonical_file] [canonical_file] [sb_report_file] 0 1 jan_1
       start_world)) 0 = asin_map_frame
   \<and> frame_at (snd (process_files [canonical_file] [canonical_file] [sb_report_file] 0 1 jan_1
       start_world)) 1 = campaign_map_frame"
proof -
  have a: "process_files [canonical_file] [canonical_file] [sb_report_file] 0 1 jan_1 start_world =
      (fst (process_files [canonical_file] [canonical_file] [sb_report_file] 0 1 jan_1 start_world),
       snd (process_files [canonical_file] [canonical_file] [sb_report_file] 0 1 jan_1 start_world))"
    by simp
  have b: "0 < length (heap start_world)" by (simp add: start_world_def)
  have c: "1 < length (heap start_world)" by (simp add: start_world_def)
  show ?thesis
    using mappings_unchanged [OF a b c] by (simp add: frame_at_def start_world_def)
qed

section \<open>Runs that raise\<close>

text \<open>
  C3. The page does not look at the uploads before it runs the pipeline. With the Process
  button pressed and no SP file, \<^verbatim>\<open>process_files\<close> is called and \<^verbatim>\<open>pd.concat\<close> raises on
  the empty list: nothing is shown, no warning either. The warning to upload all files is
  what the page shows when the button is not pressed, whatever was uploaded.
\<close>

theorem process_without_files_raises:
  "page True [] SD_file SB_file ASIN_Mapping Campaign_Mapping selected_date w =
     (Inl (ValueError ''No objects to concatenate''), w)
   \<and> page False SP_file SD_file SB_file ASIN_Mapping Campaign_Mapping selected_date w =
     (Inr (), w\<lparr>shown := shown w @ [St_warning ''Please upload all required files (SP, SD, SB).'']\<rparr>)"
  by (simp add: page_def process_files_def and_then_def say_def new_frame_def pd_concat_def
      show_all_def)

text \<open>
  C4. \<^verbatim>\<open>process_files\<close> and \<^verbatim>\<open>aggregate_data\<close> raise on inputs they can get: an SP upload
  of an unsupported format gives the empty frame, which has no \<open>Advertised ASIN\<close> column
  for the join (KeyError); an empty list of SD uploads makes \<^verbatim>\<open>pd.concat\<close> raise
  (ValueError); a frame with every metric column and no \<open>Sub-Category\<close> column makes
  the grouping raise (KeyError).
\<close>

theorem pipeline_raises:
  "fst (process_files [text_file] [canonical_file] [sb_report_file] 0 1 jan_1 start_world)
     = Inl (KeyError ''Advertised ASIN'')
   \<and> fst (process_files [canonical_file] [] [sb_report_file] 0 1 jan_1 start_world)
     = Inl (ValueError ''No objects to concatenate'')
   \<and> aggregate_data
       \<lparr>columns = [''Selected Date'', ''Orders''], rows = [[Str ''2024-01-01'', I64 1]]\<rparr>
       [(''Orders'', Sum)]
     = (Inl (KeyError ''Sub-Category''), [])"
proof -
  have "fst (process_files [text_file] [canonical_file] [sb_report_file] 0 1 jan_1 start_world)
      = Inl (KeyError ''Advertised ASIN'')"
    by (simp add: process_files_def steps read_canonical read_text read_sb_report concat_canonical
        concat_empty_frame concat_sb_report strftime_jan_1 merge_empty_frame frame_at_def
        start_world_def del: read_all.simps cong: sum.case_cong_weak)
  moreover have "fst (process_files [canonical_file] [] [sb_report_file] 0 1 jan_1 start_world)
      = Inl (ValueError ''No objects to concatenate'')"
    by (simp add: process_files_def steps read_canonical read_sb_report concat_canonical
        pd_concat_Nil read_all_Nil del: read_all.simps cong: sum.case_cong_weak)
  moreover have "aggregate_data
       \<lparr>columns = [''Selected Date'', ''Orders''], rows = [[Str ''2024-01-01'', I64 1]]\<rparr>
       [(''Orders'', Sum)]
     = (Inl (KeyError ''Sub-Category''), [])"
    by (simp add: agg_defs)
  ultimately show ?thesis by simp
qed

section \<open>Concatenation\<close>

















section \<open>Grouping and sums\<close>












section \<open>Runs that return\<close>

















section \<open>Rows without a match\<close>












section \<open>A missing metric column\<close>




end
